theory Spec2Isabelle
  imports Main "HOL-Library.Word" "HOL-Library.Char_ord" "HOL-Library.List_Lexorder"
    "HOL-Library.Multiset" "HOL-Library.Monad_Syntax"
begin

unbundle bit_operations_syntax

section \<open>The metadata record\<close>

text \<open>
  \<^verbatim>\<open>std::filesystem::file_type\<close>, with all the enumerators of the standard library. The
  program itself only ever distinguishes regular files, directories and symlinks; every
  other enumerator is written as \<^verbatim>\<open>?\<close>.
\<close>

datatype file_type =
  ft_none | ft_not_found | ft_regular | ft_directory | ft_symlink
  | ft_block | ft_character | ft_fifo | ft_socket | ft_unknown

text \<open>
  The private fields of \<^verbatim>\<open>class FilesystemElement\<close> (diskdiff.h). \<^verbatim>\<open>perms\<close> is an
  enumeration over \<^verbatim>\<open>unsigned\<close>, \<^verbatim>\<open>time_t\<close> and \<^verbatim>\<open>off_t\<close> are signed 64-bit integers,
  \<^verbatim>\<open>uintmax_t\<close> is an unsigned 64-bit integer. A \<^verbatim>\<open>std::filesystem::path\<close> is modelled
  by its native string.
\<close>

record FilesystemElement =
  ty :: file_type
  per :: "32 word"
  us :: string
  gs :: string
  mt :: "64 word"
  sz :: "64 word"
  fileHash :: string
  rp :: string
  symlink :: string
  hardLinkCnt :: "64 word"

definition isDirectory :: "FilesystemElement \<Rightarrow> bool" where
  "isDirectory e = (ty e = ft_directory)"

section \<open>Comparison of paths\<close>

text \<open>
  \<^verbatim>\<open>operator<\<close> of \<^verbatim>\<open>std::filesystem::path\<close> compares two paths element by element
  (\<^verbatim>\<open>path::compare\<close>): a path without root directory sorts before one with a root
  directory, then the file names are compared lexicographically, each by
  \<^verbatim>\<open>std::string::compare\<close> (bytes as unsigned values). On POSIX a path has no root name.
  Runs of separators count as one separator and a trailing separator leaves an empty
  last file name.
\<close>

definition has_root_directory :: "string \<Rightarrow> bool" where
  "has_root_directory p = (case p of [] \<Rightarrow> False | c # _ \<Rightarrow> c = CHR ''/'')"

fun path_elems :: "string \<Rightarrow> string \<Rightarrow> string list" where
  "path_elems cur [] = [cur]"
| "path_elems cur (c # cs) =
     (if c = CHR ''/''
      then (case cs of
              [] \<Rightarrow> cur # path_elems [] cs
            | d # _ \<Rightarrow> if d = CHR ''/'' then path_elems cur cs else cur # path_elems [] cs)
      else path_elems (cur @ [c]) cs)"

definition path_filenames :: "string \<Rightarrow> string list" where
  "path_filenames p =
     (let r = dropWhile (\<lambda>c. c = CHR ''/'') p in if r = [] then [] else path_elems [] r)"

definition path_less :: "string \<Rightarrow> string \<Rightarrow> bool" where
  "path_less p q =
     (if has_root_directory p = has_root_directory q
      then path_filenames p < path_filenames q
      else has_root_directory q)"

definition path_eq :: "string \<Rightarrow> string \<Rightarrow> bool" where
  "path_eq p q =
     (has_root_directory p = has_root_directory q \<and> path_filenames p = path_filenames q)"

section \<open>Ordering of records\<close>

text \<open>
  \<^verbatim>\<open>bool operator< (const FilesystemElement& a, const FilesystemElement& b)\<close>: the
  comparison \<^verbatim>\<open>a.isDirectory() > b.isDirectory()\<close> of two booleans holds when \<^verbatim>\<open>a\<close> is a
  directory and \<^verbatim>\<open>b\<close> is not.
\<close>

definition operator_less :: "FilesystemElement \<Rightarrow> FilesystemElement \<Rightarrow> bool" where
  "operator_less a b =
     (if isDirectory a = isDirectory b then path_less (rp a) (rp b)
      else isDirectory a \<and> \<not> isDirectory b)"

text \<open>
  \<^verbatim>\<open>std::list::sort\<close> is a stable sort by \<^verbatim>\<open>operator<\<close>: an element moves in front of
  another one only if it is strictly less. It is modelled on keyed elements, the key being
  the record: \<^verbatim>\<open>FileLister\<close> sorts records, the directory tree sorts nodes by their
  records.
\<close>

fun insort_elem :: "('a \<Rightarrow> FilesystemElement) \<Rightarrow> 'a \<Rightarrow> 'a list \<Rightarrow> 'a list" where
  "insort_elem k x [] = [x]"
| "insort_elem k x (y # ys) =
     (if operator_less (k y) (k x) then y # insort_elem k x ys else x # y # ys)"

definition list_sort :: "('a \<Rightarrow> FilesystemElement) \<Rightarrow> 'a list \<Rightarrow> 'a list" where
  "list_sort k xs = foldr (insort_elem k) xs []"

section \<open>Characters and decimal numbers of the stream library\<close>

text \<open>\<^verbatim>\<open>isspace\<close> in the C locale, which formatted input uses to skip and delimit.\<close>

definition isspace :: "char \<Rightarrow> bool" where
  "isspace c = (c = CHR '' '' \<or> c = CHR 0x09 \<or> c = CHR 0x0A \<or> c = CHR 0x0B
                \<or> c = CHR 0x0C \<or> c = CHR 0x0D)"

definition isdigit :: "char \<Rightarrow> bool" where
  "isdigit c = (48 \<le> (of_char c :: nat) \<and> (of_char c :: nat) \<le> 57)"

definition digit_char :: "nat \<Rightarrow> char" where
  "digit_char n = char_of (48 + n)"

definition digit_val :: "char \<Rightarrow> nat" where
  "digit_val c = of_char c - 48"

fun digits_of_nat :: "nat \<Rightarrow> string" where
  "digits_of_nat n =
     (if n < 10 then [digit_char n] else digits_of_nat (n div 10) @ [digit_char (n mod 10)])"

declare digits_of_nat.simps [simp del]

definition nat_of_digits :: "string \<Rightarrow> nat" where
  "nat_of_digits ds = foldl (\<lambda>a c. 10 * a + digit_val c) 0 ds"

text \<open>A signed integer written in decimal, as \<^verbatim>\<open>operator<<\<close> and \<^verbatim>\<open>to_string\<close> do.\<close>

definition show_int :: "int \<Rightarrow> string" where
  "show_int i = (if i < 0 then CHR ''-'' # digits_of_nat (nat (- i)) else digits_of_nat (nat i))"

text \<open>
  \<^verbatim>\<open>operator>>\<close> for \<^verbatim>\<open>std::string\<close>: skip white space, then take the characters up to
  the next white space or the end of the input; the extraction fails when it takes no
  character. An input stream is modelled by the characters still to be read; a failed
  extraction is \<open>None\<close>, and every later extraction of a failed stream fails too.
\<close>

definition read_string :: "string \<Rightarrow> (string \<times> string) option" where
  "read_string s =
     (let s' = dropWhile isspace s; w = takeWhile (\<lambda>c. \<not> isspace c) s'
      in if w = [] then None else Some (w, dropWhile (\<lambda>c. \<not> isspace c) s'))"

text \<open>
  \<^verbatim>\<open>operator>>\<close> for \<^verbatim>\<open>off_t\<close> (a signed 64-bit integer, decimal): skip white space, an
  optional sign, then digits; it fails without a digit and when the number does not fit.
\<close>

definition read_off_t :: "string \<Rightarrow> (64 word \<times> string) option" where
  "read_off_t s =
     (let s1 = dropWhile isspace s;
          neg = (case s1 of [] \<Rightarrow> False | c # _ \<Rightarrow> c = CHR ''-'');
          s2 = (case s1 of [] \<Rightarrow> s1 | c # r \<Rightarrow> if c = CHR ''-'' \<or> c = CHR ''+'' then r else s1);
          ds = takeWhile isdigit s2;
          v = (if neg then - int (nat_of_digits ds) else int (nat_of_digits ds))
      in if ds = [] \<or> v < - (2 ^ 63) \<or> 2 ^ 63 \<le> v then None
         else Some (word_of_int v, dropWhile isdigit s2))"

text \<open>
  \<^verbatim>\<open>std::quoted\<close>, which \<^verbatim>\<open>operator<<\<close> and \<^verbatim>\<open>operator>>\<close> of
  \<^verbatim>\<open>std::filesystem::path\<close> use: the text goes between double quotes, with a backslash in
  front of every double quote and backslash. On input, white space is skipped first; a
  text that does not start with a double quote is read like a \<^verbatim>\<open>std::string\<close>; a quoted
  text that ends before its closing quote fails.
\<close>

definition write_quoted :: "string \<Rightarrow> string" where
  "write_quoted s =
     CHR 0x22 # concat (map (\<lambda>c. if c = CHR 0x22 \<or> c = CHR 0x5C then [CHR 0x5C, c] else [c]) s)
       @ [CHR 0x22]"

fun read_quoted_body :: "string \<Rightarrow> string \<Rightarrow> (string \<times> string) option" where
  "read_quoted_body acc [] = None"
| "read_quoted_body acc [c] = (if c = CHR 0x22 then Some (acc, []) else None)"
| "read_quoted_body acc (c # d # cs) =
     (if c = CHR 0x5C then read_quoted_body (acc @ [d]) cs
      else if c = CHR 0x22 then Some (acc, d # cs)
      else read_quoted_body (acc @ [c]) (d # cs))"

definition read_quoted :: "string \<Rightarrow> (string \<times> string) option" where
  "read_quoted s =
     (case dropWhile isspace s of
        [] \<Rightarrow> None
      | c # cs \<Rightarrow> if c \<noteq> CHR 0x22 then read_string (c # cs) else read_quoted_body [] cs)"

section \<open>Calendar time of the C library\<close>

text \<open>
  The fields of \<^verbatim>\<open>struct tm\<close> that the program reads and writes. \<^verbatim>\<open>gmtime_r\<close> and
  \<^verbatim>\<open>timegm\<close> convert between seconds since 1970-01-01 00:00:00 UTC and the proleptic
  Gregorian calendar, without leap seconds. Days are counted in years that start on
  March 1st, so that the leap day is the last day of a year: \<open>year_days y\<close> is the number
  of days from March 1st of year 0 to March 1st of year \<open>y\<close>.
\<close>

record tm =
  tm_sec :: int
  tm_min :: int
  tm_hour :: int
  tm_mday :: int
  tm_mon :: int
  tm_year :: int

definition year_days :: "int \<Rightarrow> int" where
  "year_days y = 365 * y + y div 4 - y div 100 + y div 400"

definition days_from_civil :: "int \<Rightarrow> int \<Rightarrow> int \<Rightarrow> int" where
  "days_from_civil y m d =
     (let y' = (if m \<le> 2 then y - 1 else y);
          mp = (if m > 2 then m - 3 else m + 9)
      in year_days y' + (153 * mp + 2) div 5 + d - 1 - 719468)"

definition civil_from_days :: "int \<Rightarrow> int \<times> int \<times> int" where
  "civil_from_days z =
     (let z' = z + 719468;
          y0 = (400 * z') div 146097;
          y' = (if year_days (y0 + 1) \<le> z' then y0 + 1
                else if year_days y0 \<le> z' then y0 else y0 - 1);
          doy = z' - year_days y';
          mp = (5 * doy + 2) div 153;
          d = doy - (153 * mp + 2) div 5 + 1;
          m = (if mp < 10 then mp + 3 else mp - 9)
      in (if m \<le> 2 then y' + 1 else y', m, d))"

text \<open>
  \<^verbatim>\<open>timegm\<close> accepts fields out of their ranges; months are carried into the year. It
  returns -1 when the result does not fit \<^verbatim>\<open>time_t\<close>.
\<close>

definition timegm :: "tm \<Rightarrow> 64 word" where
  "timegm t =
     (let y = tm_year t + 1900 + tm_mon t div 12;
          m = tm_mon t mod 12 + 1;
          v = 86400 * days_from_civil y m (tm_mday t) + 3600 * tm_hour t + 60 * tm_min t
              + tm_sec t
      in if v < - (2 ^ 63) \<or> 2 ^ 63 \<le> v then - 1 else word_of_int v)"

definition gmtime :: "int \<Rightarrow> tm" where
  "gmtime t =
     (let days = t div 86400; secs = t mod 86400 in
      case civil_from_days days of (y, m, d) \<Rightarrow>
        \<lparr>tm_sec = secs mod 60, tm_min = (secs div 60) mod 60, tm_hour = secs div 3600,
         tm_mday = d, tm_mon = m - 1, tm_year = y - 1900\<rparr>)"

text \<open>\<^verbatim>\<open>gmtime_r\<close> fails when the year does not fit the \<^verbatim>\<open>int\<close> field.\<close>

definition gmtime_r :: "64 word \<Rightarrow> tm option" where
  "gmtime_r t =
     (let r = gmtime (sint t)
      in if tm_year r < - (2 ^ 31) \<or> 2 ^ 31 \<le> tm_year r then None else Some r)"

text \<open>
  \<^verbatim>\<open>put_time(&t, "%F %T +0000")\<close>: \<^verbatim>\<open>%F\<close> is \<^verbatim>\<open>%Y-%m-%d\<close> and \<^verbatim>\<open>%T\<close> is \<^verbatim>\<open>%H:%M:%S\<close>; the
  year is written as a plain decimal number, the other fields with two digits.
\<close>

definition two_digits :: "int \<Rightarrow> string" where
  "two_digits v = (if 0 \<le> v \<and> v < 10 then CHR ''0'' # show_int v else show_int v)"

definition put_time :: "tm \<Rightarrow> string" where
  "put_time t =
     show_int (tm_year t + 1900) @ ''-'' @ two_digits (tm_mon t + 1) @ ''-''
     @ two_digits (tm_mday t) @ '' '' @ two_digits (tm_hour t) @ '':''
     @ two_digits (tm_min t) @ '':'' @ two_digits (tm_sec t) @ '' +0000''"

text \<open>
  \<^verbatim>\<open>get_time(&t, "%Y-%m-%d %T")\<close>, as the C++ standard describes \<^verbatim>\<open>time_get::get\<close>: a
  numeric conversion reads at most its number of digits (four for \<^verbatim>\<open>%Y\<close>, two for the
  others), at least one, and the number must lie in the range of the field; white space
  of the format matches any white space of the input, also none; every other character
  of the format must be the next character of the input.
\<close>

definition get_num :: "nat \<Rightarrow> int \<Rightarrow> int \<Rightarrow> string \<Rightarrow> (int \<times> string) option" where
  "get_num len lo hi s =
     (let ds = takeWhile isdigit (take len s); v = int (nat_of_digits ds)
      in if ds = [] \<or> v < lo \<or> hi < v then None else Some (v, drop (length ds) s))"

definition expect :: "char \<Rightarrow> string \<Rightarrow> string option" where
  "expect c s = (case s of [] \<Rightarrow> None | x # xs \<Rightarrow> if x = c then Some xs else None)"

definition get_time :: "string \<Rightarrow> (tm \<times> string) option" where
  "get_time s0 = do {
     (year, s1) \<leftarrow> get_num 4 0 9999 s0;
     s2 \<leftarrow> expect CHR ''-'' s1;
     (month, s3) \<leftarrow> get_num 2 1 12 s2;
     s4 \<leftarrow> expect CHR ''-'' s3;
     (day, s5) \<leftarrow> get_num 2 1 31 s4;
     (hour, s6) \<leftarrow> get_num 2 0 23 (dropWhile isspace s5);
     s7 \<leftarrow> expect CHR '':'' s6;
     (minute, s8) \<leftarrow> get_num 2 0 59 s7;
     s9 \<leftarrow> expect CHR '':'' s8;
     (second, s10) \<leftarrow> get_num 2 0 60 s9;
     Some (\<lparr>tm_sec = second, tm_min = minute, tm_hour = hour, tm_mday = day,
            tm_mon = month - 1, tm_year = year - 1900\<rparr>, s10)
   }"

section \<open>The text codec of a record\<close>

text \<open>
  \<^verbatim>\<open>FilesystemElement::writeTo\<close>. The result is the text appended to the stream, the line
  feed included; it is \<open>None\<close> when the assertion on \<^verbatim>\<open>gmtime_r\<close> fails, which aborts the
  program.
\<close>

definition type_char :: "file_type \<Rightarrow> char" where
  "type_char t =
     (case t of ft_regular \<Rightarrow> CHR ''-'' | ft_directory \<Rightarrow> CHR ''d'' | ft_symlink \<Rightarrow> CHR ''l''
      | _ \<Rightarrow> CHR ''?'')"

definition perm_char :: "32 word \<Rightarrow> 32 word \<Rightarrow> char \<Rightarrow> char" where
  "perm_char pe flag c = (if pe AND flag \<noteq> 0 then c else CHR ''-'')"

definition perm_chars :: "32 word \<Rightarrow> string" where
  "perm_chars pe =
     [perm_char pe 0x100 CHR ''r'', perm_char pe 0x80 CHR ''w'', perm_char pe 0x40 CHR ''x'',
      perm_char pe 0x20 CHR ''r'', perm_char pe 0x10 CHR ''w'', perm_char pe 0x8 CHR ''x'',
      perm_char pe 0x4 CHR ''r'', perm_char pe 0x2 CHR ''w'', perm_char pe 0x1 CHR ''x'']"

definition writeTo :: "FilesystemElement \<Rightarrow> string option" where
  "writeTo e =
     (case gmtime_r (mt e) of
        None \<Rightarrow> None
      | Some t \<Rightarrow>
          Some (type_char (ty e) # perm_chars (per e) @ '' '' @ us e @ '' '' @ gs e @ '' ''
                @ put_time t @ '' ''
                @ (case ty e of
                     ft_regular \<Rightarrow> show_int (sint (sz e)) @ '' '' @ fileHash e @ '' ''
                   | ft_symlink \<Rightarrow> write_quoted (symlink e) @ '' ''
                   | _ \<Rightarrow> [])
                @ write_quoted (rp e) @ [CHR 0x0A]))"

text \<open>
  \<^verbatim>\<open>FilesystemElement::readFrom\<close>. It throws a \<^verbatim>\<open>runtime_error\<close> whose message the
  lambda \<^verbatim>\<open>fail\<close> builds from the name of the file, the reason, the line number and the
  line. The stages below follow the statements of the function in their order; each
  returns what it has read and the rest of the input, or the reason of the failure.
\<close>

datatype exn = runtime_error string | logic_error string

definition fail_message :: "string \<Rightarrow> int \<Rightarrow> string \<Rightarrow> string \<Rightarrow> string" where
  "fail_message diffFileName lineNo diffLine m =
     diffFileName @ (if diffFileName \<noteq> [] then '': '' else []) @ m
     @ (if lineNo > 0 then '' at line'' @ show_int lineNo else [])
     @ '', wrong line is '' @ [CHR 0x27] @ diffLine @ [CHR 0x27]"

definition file_type_of_char :: "char \<Rightarrow> file_type option" where
  "file_type_of_char c =
     (if c = CHR ''-'' then Some ft_regular
      else if c = CHR ''d'' then Some ft_directory
      else if c = CHR ''l'' then Some ft_symlink
      else if c = CHR ''?'' then Some ft_unknown
      else None)"

definition perm_bit :: "char \<Rightarrow> char \<Rightarrow> 32 word \<Rightarrow> 32 word \<Rightarrow> 32 word option" where
  "perm_bit c expected flag pe =
     (if c = expected then Some (pe OR flag) else if c \<noteq> CHR ''-'' then None else Some pe)"

definition read_triple :: "32 word \<Rightarrow> string \<Rightarrow> 32 word option" where
  "read_triple pe permTriple = do {
     pe1 \<leftarrow> perm_bit (permTriple ! 0) CHR ''r'' 4 (push_bit 3 pe);
     pe2 \<leftarrow> perm_bit (permTriple ! 1) CHR ''w'' 2 pe1;
     perm_bit (permTriple ! 2) CHR ''x'' 1 pe2
   }"

definition substr :: "string \<Rightarrow> nat \<Rightarrow> nat \<Rightarrow> string" where
  "substr s pos n = take n (drop pos s)"

definition read_perms :: "string \<Rightarrow> 32 word option" where
  "read_perms permStr = do {
     pe1 \<leftarrow> read_triple 0 (substr permStr 1 3);
     pe2 \<leftarrow> read_triple pe1 (substr permStr 4 3);
     read_triple pe2 (substr permStr 7 3)
   }"

definition read_type_and_permissions :: "string \<Rightarrow> string + (file_type \<times> 32 word \<times> string)"
  where
  "read_type_and_permissions s =
     (case read_string s of
        None \<Rightarrow> Inl ''Error reading permission string''
      | Some (permStr, in1) \<Rightarrow>
          (if length permStr \<noteq> 10 then Inl ''Error reading permission string''
           else (case file_type_of_char (permStr ! 0) of
                   None \<Rightarrow> Inl ''Unrecognized file type''
                 | Some t \<Rightarrow>
                     (case read_perms permStr of
                        None \<Rightarrow> Inl ''Permissions not correct''
                      | Some pe \<Rightarrow> Inr (t, pe, in1)))))"

definition read_user_group :: "string \<Rightarrow> string + (string \<times> string \<times> string)" where
  "read_user_group s =
     (case read_string s of
        None \<Rightarrow> Inl ''Error reading user/group''
      | Some (u, in1) \<Rightarrow>
          (case read_string in1 of
             None \<Rightarrow> Inl ''Error reading user/group''
           | Some (g, in2) \<Rightarrow> Inr (u, g, in2)))"

definition read_mtime :: "string \<Rightarrow> string + (64 word \<times> string)" where
  "read_mtime s =
     (case get_time (dropWhile isspace s) of
        None \<Rightarrow> Inl ''Error reading mtime''
      | Some (t, in1) \<Rightarrow>
          (if timegm t = - 1 then Inl ''Error reading mtime''
           else if take 6 in1 \<noteq> '' +0000'' then Inl ''Error reading mtime''
           else Inr (timegm t, drop 6 in1)))"

definition read_kind_fields ::
  "string \<Rightarrow> FilesystemElement \<Rightarrow> string + (FilesystemElement \<times> string)" where
  "read_kind_fields s e =
     (case ty e of
        ft_regular \<Rightarrow>
          (case read_off_t s of
             None \<Rightarrow> Inl ''Error reading size''
           | Some (n, in1) \<Rightarrow>
               (case read_string in1 of
                  None \<Rightarrow> Inl ''Error reading hash''
                | Some (h, in2) \<Rightarrow>
                    (if length h \<noteq> 40 then Inl ''Error reading hash''
                     else Inr (e\<lparr>sz := n, fileHash := h\<rparr>, in2))))
      | ft_symlink \<Rightarrow>
          (case read_quoted s of
             None \<Rightarrow> Inl ''Error reading symlink target''
           | Some (p, in1) \<Rightarrow> Inr (e\<lparr>symlink := p\<rparr>, in1))
      | _ \<Rightarrow> Inr (e, s))"

definition read_path_end :: "string \<Rightarrow> FilesystemElement \<Rightarrow> string + FilesystemElement" where
  "read_path_end s e =
     (case read_quoted s of
        None \<Rightarrow> Inl ''Error reading path''
      | Some (p, in1) \<Rightarrow>
          (if in1 \<noteq> [] then Inl ''Extra characters at end of line''
           else Inr (e\<lparr>rp := p, hardLinkCnt := 1\<rparr>)))"

definition then_read :: "string + 'a \<Rightarrow> ('a \<Rightarrow> string + 'b) \<Rightarrow> string + 'b" where
  "then_read x f = (case x of Inl m \<Rightarrow> Inl m | Inr v \<Rightarrow> f v)"

definition parse_line :: "string \<Rightarrow> FilesystemElement \<Rightarrow> string + FilesystemElement" where
  "parse_line diffLine this =
     then_read (read_type_and_permissions diffLine) (\<lambda>(t, pe, in1).
     then_read (read_user_group in1) (\<lambda>(u, g, in2).
     then_read (read_mtime in2) (\<lambda>(m, in3).
     then_read (read_kind_fields in3 (this\<lparr>ty := t, per := pe, us := u, gs := g, mt := m\<rparr>))
       (\<lambda>(e, in4). read_path_end in4 e))))"

definition readFrom ::
  "string \<Rightarrow> string \<Rightarrow> int \<Rightarrow> FilesystemElement \<Rightarrow> exn + FilesystemElement" where
  "readFrom diffLine diffFileName lineNo this =
     (case parse_line diffLine this of
        Inl m \<Rightarrow> Inl (runtime_error (fail_message diffFileName lineNo diffLine m))
      | Inr e \<Rightarrow> Inr e)"

text \<open>
  The default constructor, and the constructor from a line of a diff file, which reads
  into a new object: \<^verbatim>\<open>mt\<close>, \<^verbatim>\<open>sz\<close> and \<^verbatim>\<open>hardLinkCnt\<close> have default member
  initializers, the strings are empty, and \<^verbatim>\<open>readFrom\<close> assigns the type and the
  permissions before it returns.
\<close>

definition FilesystemElement_default :: FilesystemElement where
  "FilesystemElement_default =
     \<lparr>ty = ft_unknown, per = 0xFFFF, us = [], gs = [], mt = 0, sz = 0, fileHash = [],
      rp = [], symlink = [], hardLinkCnt = 1\<rparr>"

definition FilesystemElement_line ::
  "string \<Rightarrow> string \<Rightarrow> int \<Rightarrow> exn + FilesystemElement" where
  "FilesystemElement_line diffLine diffFileName lineNo =
     readFrom diffLine diffFileName lineNo FilesystemElement_default"

section \<open>The directory on disk\<close>

text \<open>
  What the program reads from the file system. An entry of a directory carries its path
  relative to the top directory (\<^verbatim>\<open>p.lexically_relative(top)\<close>), the result of
  \<^verbatim>\<open>ext_symlink_status\<close>, the hash of its content (\<^verbatim>\<open>hashFile\<close>), the target of the link
  (\<^verbatim>\<open>read_symlink\<close>) and, for a directory, the entries that \<^verbatim>\<open>directory_iterator\<close>
  enumerates, in the order of the enumeration. The hash and the target are read only for
  a regular file and a symlink, the entries only for a directory. All reads succeed.
\<close>

record ext_file_status =
  st_type :: file_type
  st_permissions :: "32 word"
  st_user :: string
  st_group :: string
  st_mtime :: "64 word"
  st_hard_link_count :: "64 word"
  st_file_size :: "64 word"

datatype dirent =
  Dirent (d_rel: string) (d_status: ext_file_status) (d_hash: string) (d_target: string)
    (d_entries: "dirent list")

text \<open>The constructor \<^verbatim>\<open>FilesystemElement(const path& p, const path& top)\<close>.\<close>

definition FilesystemElement_disk :: "dirent \<Rightarrow> FilesystemElement" where
  "FilesystemElement_disk d =
     (let s = d_status d;
          e = \<lparr>ty = st_type s, per = st_permissions s, us = st_user s, gs = st_group s,
               mt = st_mtime s, sz = 0, fileHash = [], rp = d_rel d, symlink = [],
               hardLinkCnt = st_hard_link_count s\<rparr>
      in case st_type s of
           ft_regular \<Rightarrow> e\<lparr>sz := st_file_size s, fileHash := d_hash d\<rparr>
         | ft_directory \<Rightarrow> e
         | ft_symlink \<Rightarrow> e\<lparr>symlink := d_target d\<rparr>
         | _ \<Rightarrow> e\<lparr>ty := ft_unknown\<rparr>)"

text \<open>
  The file system as \<^verbatim>\<open>listFiles\<close> sees it: \<^verbatim>\<open>absolute\<close>, and for every path that
  \<^verbatim>\<open>is_directory\<close> accepts the entries of that directory.
\<close>

record disk =
  absolute :: "string \<Rightarrow> string"
  directory_at :: "string \<Rightarrow> dirent list option"

section \<open>Listing a directory tree\<close>

text \<open>
  \<^verbatim>\<open>class FileLister\<close>: the output stream, the top directory, the two flags, and the
  diagnostic stream \<^verbatim>\<open>cerr\<close> that receives the warnings.
\<close>

record FileLister =
  os :: string
  top :: string
  printBreak :: bool
  unsupported :: bool
  cerr :: string

text \<open>The body of the first loop of \<^verbatim>\<open>recursiveListFiles\<close>, for one record.\<close>

definition list_element :: "FilesystemElement \<Rightarrow> FileLister \<Rightarrow> FileLister option" where
  "list_element e st =
     (case writeTo e of
        None \<Rightarrow> None
      | Some line \<Rightarrow>
          (let st1 = st\<lparr>os := os st @ line\<rparr>;
               st2 = (if ty e = ft_unknown
                      then st1\<lparr>cerr := cerr st1 @ ''Warning: '' @ write_quoted (rp e)
                                        @ '' has unsupported file type'' @ [CHR 0x0A],
                              unsupported := True\<rparr>
                      else st1);
               st3 = (if ty e \<noteq> ft_directory \<and> hardLinkCnt e \<noteq> 1
                      then st2\<lparr>cerr := cerr st2 @ ''Warning: '' @ write_quoted (rp e)
                                        @ '' has multiple hardlinks (''
                                        @ show_int (uint (hardLinkCnt e)) @ '')'' @ [CHR 0x0A],
                              unsupported := True\<rparr>
                      else st2)
           in Some st3))"

fun list_elements :: "FilesystemElement list \<Rightarrow> FileLister \<Rightarrow> FileLister option" where
  "list_elements [] st = Some st"
| "list_elements (e # es) st =
     (case list_element e st of None \<Rightarrow> None | Some st' \<Rightarrow> list_elements es st')"

lemma size_insort_elem [simp]:
  "size_list f (insort_elem k x xs) = Suc (f x + size_list f xs)"
  by (induction xs) auto

lemma size_list_sort [simp]: "size_list f (list_sort k xs) = size_list f xs"
  by (induction xs) (auto simp: list_sort_def)

lemma size_d_entries: "size_list size (d_entries d) < size d"
  by (cases d) simp

text \<open>
  \<^verbatim>\<open>FileLister::recursiveListFiles\<close>, for the entries of the directory \<^verbatim>\<open>p\<close>. The second
  loop is \<open>list_directories\<close>; the directory \<^verbatim>\<open>top / e.relativePath()\<close> it descends into
  is the directory of the entry the record was made from.
\<close>

function recursiveListFiles :: "dirent list \<Rightarrow> FileLister \<Rightarrow> FileLister option"
  and list_directories :: "dirent list \<Rightarrow> FileLister \<Rightarrow> FileLister option" where
  "recursiveListFiles entries st =
     (let st1 = (if printBreak st then st\<lparr>os := os st @ [CHR 0x0A]\<rparr> else st);
          fe = list_sort FilesystemElement_disk entries
      in case list_elements (map FilesystemElement_disk fe) st1 of
           None \<Rightarrow> None
         | Some st2 \<Rightarrow> list_directories fe (st2\<lparr>printBreak := (fe \<noteq> [])\<rparr>))"
| "list_directories [] st = Some st"
| "list_directories (d # ds) st =
     (if isDirectory (FilesystemElement_disk d)
      then (case recursiveListFiles (d_entries d) st of
              None \<Rightarrow> None
            | Some st' \<Rightarrow> list_directories ds st')
      else list_directories ds st)"
  by pat_completeness auto
termination
proof (relation "measure (\<lambda>x. case x of Inl (entries, _) \<Rightarrow> 2 * size_list size entries + 1
                                        | Inr (ds, _) \<Rightarrow> 2 * size_list size ds)",
       goal_cases)
  case (3 d ds st)
  then show ?case using size_d_entries [of d] by simp
qed auto

text \<open>
  \<^verbatim>\<open>FileLister::listFiles\<close>. A run returns, throws with the object as it is at the
  \<^verbatim>\<open>throw\<close>, or is aborted by the failed assertion.
\<close>

datatype outcome = Returned FileLister | Thrown exn FileLister | Aborted

definition listFiles :: "disk \<Rightarrow> string \<Rightarrow> FileLister \<Rightarrow> outcome" where
  "listFiles fs top_arg st =
     (let st1 = st\<lparr>top := absolute fs top_arg\<rparr>
      in case directory_at fs (top st1) of
           None \<Rightarrow> Thrown (logic_error (top_arg @ '' is not a directory'')) st1
         | Some entries \<Rightarrow>
             (case recursiveListFiles entries (st1\<lparr>printBreak := False, unsupported := False\<rparr>) of
                None \<Rightarrow> Aborted
              | Some st' \<Rightarrow> Returned st'))"

section \<open>What a listing writes, as a function of the tree\<close>

text \<open>
  The records of a listing: \<open>visited\<close> are the records made for an entry and for
  everything below it that the traversal reaches (it descends into directories only);
  \<open>dir_blocks\<close> are the blocks of a listing in the order they are written, one for
  every directory in depth-first pre-order, each with the records of the entries of the
  directory in sorted order.
\<close>

fun visited :: "dirent \<Rightarrow> FilesystemElement list" where
  "visited (Dirent r s h t es) =
     FilesystemElement_disk (Dirent r s h t es) #
       (if isDirectory (FilesystemElement_disk (Dirent r s h t es))
        then concat (map visited es) else [])"

function dir_blocks :: "dirent list \<Rightarrow> FilesystemElement list list"
  and sub_blocks :: "dirent list \<Rightarrow> FilesystemElement list list" where
  "dir_blocks entries =
     (let fe = list_sort FilesystemElement_disk entries
      in map FilesystemElement_disk fe # sub_blocks fe)"
| "sub_blocks [] = []"
| "sub_blocks (d # ds) =
     (if isDirectory (FilesystemElement_disk d) then dir_blocks (d_entries d) else [])
     @ sub_blocks ds"
  by pat_completeness auto
termination
proof (relation "measure (\<lambda>x. case x of Inl entries \<Rightarrow> 2 * size_list size entries + 1
                                        | Inr ds \<Rightarrow> 2 * size_list size ds)",
       goal_cases)
  case (3 d ds)
  then show ?case using size_d_entries [of d] by simp
qed auto

definition entry_line :: "FilesystemElement \<Rightarrow> string" where
  "entry_line e = (case writeTo e of None \<Rightarrow> [] | Some l \<Rightarrow> l)"

text \<open>
  The text of a sequence of blocks: a line feed stands in front of a block exactly when
  the block before it was not empty; \<open>pb\<close> tells whether a non-empty block precedes the
  sequence.
\<close>

fun render :: "bool \<Rightarrow> FilesystemElement list list \<Rightarrow> string" where
  "render pb [] = []"
| "render pb (b # bs) =
     (if pb then [CHR 0x0A] else []) @ concat (map entry_line b) @ render (b \<noteq> []) bs"

definition final_break :: "bool \<Rightarrow> FilesystemElement list list \<Rightarrow> bool" where
  "final_break pb bs = (if bs = [] then pb else last bs \<noteq> [])"

definition entry_unsupported :: "FilesystemElement \<Rightarrow> bool" where
  "entry_unsupported e = (ty e = ft_unknown \<or> ty e \<noteq> ft_directory \<and> hardLinkCnt e \<noteq> 1)"

definition lister_effect ::
  "FileLister \<Rightarrow> FilesystemElement list list \<Rightarrow> FileLister \<Rightarrow> bool" where
  "lister_effect st bs st' =
     (os st' = os st @ render (printBreak st) bs \<and>
      printBreak st' = final_break (printBreak st) bs \<and>
      unsupported st' = (unsupported st \<or> list_ex entry_unsupported (concat bs)) \<and>
      top st' = top st)"

text \<open>
  The format as the specification words it: one block for every directory, with a blank
  separator line between one block and the next (\<open>separated_blocks\<close>), or after every
  block (\<open>followed_blocks\<close>).
\<close>

definition separated_blocks :: "FilesystemElement list list \<Rightarrow> string" where
  "separated_blocks bs =
     (case bs of
        [] \<Rightarrow> []
      | b # cs \<Rightarrow> concat (map entry_line b)
                 @ concat (map (\<lambda>c. CHR 0x0A # concat (map entry_line c)) cs))"

definition followed_blocks :: "FilesystemElement list list \<Rightarrow> string" where
  "followed_blocks bs = concat (map (\<lambda>b. concat (map entry_line b) @ [CHR 0x0A]) bs)"

definition written :: "outcome \<Rightarrow> string option" where
  "written r = (case r of Returned st \<Rightarrow> Some (os st) | _ \<Rightarrow> None)"

text \<open>Trees, a file system and a lister for concrete instances.\<close>

definition example_status :: "file_type \<Rightarrow> 64 word \<Rightarrow> ext_file_status" where
  "example_status t n =
     \<lparr>st_type = t, st_permissions = 0x1ED, st_user = ''root'', st_group = ''staff'',
      st_mtime = 1600000000, st_hard_link_count = n, st_file_size = 5\<rparr>"

definition example_entry_f :: dirent where
  "example_entry_f =
     Dirent ''b/f'' (example_status ft_regular 1) ''da39a3ee5e6b4b0d3255bfef95601890afd80709''
       [] []"

definition example_entry_b :: dirent where
  "example_entry_b = Dirent ''b'' (example_status ft_directory 2) [] [] [example_entry_f]"

definition example_entry_a :: dirent where
  "example_entry_a = Dirent ''a'' (example_status ft_directory 2) [] [] []"

definition example_tree :: "dirent list" where
  "example_tree = [example_entry_b, example_entry_a]"

definition example_tree_unsupported :: "dirent list" where
  "example_tree_unsupported =
     [Dirent ''pipe'' (example_status ft_fifo 1) [] [] [],
      Dirent ''d'' (example_status ft_directory 2) [] []
        [Dirent ''d/h'' (example_status ft_regular 2)
           ''da39a3ee5e6b4b0d3255bfef95601890afd80709'' [] []]]"

definition example_disk :: disk where
  "example_disk =
     \<lparr>absolute = (\<lambda>p. ''/home/'' @ p),
      directory_at = (\<lambda>p. if p = ''/home/top'' then Some example_tree
                           else if p = ''/home/odd'' then Some example_tree_unsupported
                           else None)\<rparr>"

definition example_lister :: FileLister where
  "example_lister = \<lparr>os = [], top = [], printBreak = True, unsupported = True, cerr = []\<rparr>"

section \<open>Properties of the ordering\<close>

lemma path_less_irrefl: "\<not> path_less p p"
  by (simp add: path_less_def)

lemma path_less_trans: "path_less p q \<Longrightarrow> path_less q r \<Longrightarrow> path_less p r"
  by (auto simp: path_less_def split: if_splits)

lemma path_less_total: "path_less p q \<or> path_less q p \<or> path_eq p q"
  by (auto simp: path_less_def path_eq_def)

lemma path_eq_not_less: "path_eq p q \<Longrightarrow> \<not> path_less p q \<and> \<not> path_less q p"
  by (auto simp: path_less_def path_eq_def)

lemma operator_less_irrefl: "\<not> operator_less a a"
  by (simp add: operator_less_def path_less_irrefl)

lemma operator_less_trans:
  "operator_less a b \<Longrightarrow> operator_less b c \<Longrightarrow> operator_less a c"
  by (auto simp: operator_less_def split: if_splits intro: path_less_trans)

lemma operator_less_equiv:
  "(\<not> operator_less a b \<and> \<not> operator_less b a) =
   (isDirectory a = isDirectory b \<and> path_eq (rp a) (rp b))"
  using path_less_total [of "rp a" "rp b"] path_eq_not_less [of "rp a" "rp b"]
  by (auto simp: operator_less_def)

lemma operator_less_dir_first:
  "isDirectory a \<Longrightarrow> \<not> isDirectory b \<Longrightarrow> operator_less a b \<and> \<not> operator_less b a"
  by (simp add: operator_less_def)

lemma operator_less_linear:
  "\<not> operator_less a b \<Longrightarrow> \<not> operator_less b c \<Longrightarrow> \<not> operator_less a c"
  using path_less_total [of "rp a" "rp b"] path_less_total [of "rp b" "rp c"]
    path_less_total [of "rp a" "rp c"]
  by (auto simp: operator_less_def path_less_def path_eq_def split: if_splits)

lemma mset_insort_elem: "mset (insort_elem k x xs) = add_mset x (mset xs)"
  by (induction xs) auto

lemma mset_list_sort: "mset (list_sort k xs) = mset xs"
  by (induction xs) (auto simp: list_sort_def mset_insort_elem)

lemma set_insort_elem: "set (insort_elem k x xs) = insert x (set xs)"
  by (induction xs) auto

lemma set_list_sort: "set (list_sort k xs) = set xs"
  by (induction xs) (auto simp: list_sort_def set_insort_elem)

lemma sorted_insort_elem:
  "sorted_wrt (\<lambda>a b. \<not> operator_less (k b) (k a)) xs \<Longrightarrow>
   sorted_wrt (\<lambda>a b. \<not> operator_less (k b) (k a)) (insort_elem k x xs)"
proof (induction xs)
  case Nil
  then show ?case by simp
next
  case (Cons y ys)
  show ?case
  proof (cases "operator_less (k y) (k x)")
    case True
    have "\<not> operator_less (k x) (k y)"
      using True operator_less_trans operator_less_irrefl by blast
    with True Cons show ?thesis
      by (auto simp: set_insort_elem)
  next
    case False
    have "\<not> operator_less (k z) (k x)" if "z \<in> set ys" for z
      using that Cons.prems False operator_less_linear [of "k z" "k y" "k x"]
      by auto
    with False Cons show ?thesis by auto
  qed
qed


lemma sorted_list_sort:
  "sorted_wrt (\<lambda>a b. \<not> operator_less (k b) (k a)) (list_sort k xs)"
  by (induction xs) (auto simp: list_sort_def sorted_insort_elem)

lemma sorted_directories_first:
  "sorted_wrt (\<lambda>a b. \<not> operator_less (k b) (k a)) xs \<Longrightarrow>
   xs = filter (\<lambda>x. isDirectory (k x)) xs @ filter (\<lambda>x. \<not> isDirectory (k x)) xs"
proof (induction xs)
  case Nil
  then show ?case by simp
next
  case (Cons x xs)
  show ?case
  proof (cases "isDirectory (k x)")
    case True
    with Cons show ?thesis by simp
  next
    case False
    have "\<not> isDirectory (k y)" if "y \<in> set xs" for y
      using that Cons.prems False operator_less_dir_first [of "k y" "k x"] by auto
    then have "filter (\<lambda>x. isDirectory (k x)) xs = []"
      and "filter (\<lambda>x. \<not> isDirectory (k x)) xs = xs"
      by (auto simp: filter_empty_conv filter_id_conv)
    with False show ?thesis by simp
  qed
qed

lemma path_elems_no_separator:
  "CHR ''/'' \<notin> set s \<Longrightarrow> path_elems cur s = [cur @ s]"
  by (induction s arbitrary: cur) auto

lemma path_filenames_single:
  "p \<noteq> [] \<Longrightarrow> CHR ''/'' \<notin> set p \<Longrightarrow> path_filenames p = [p]"
  by (cases p) (auto simp: path_filenames_def path_elems_no_separator)

lemma path_less_single:
  assumes "p \<noteq> []" "q \<noteq> []" "CHR ''/'' \<notin> set p" "CHR ''/'' \<notin> set q"
  shows "path_less p q = (p < q)"
proof -
  have "has_root_directory p = False" "has_root_directory q = False"
    using assms by (cases p; cases q; auto simp: has_root_directory_def)+
  then show ?thesis
    using assms by (simp add: path_less_def path_filenames_single)
qed

text \<open>Two records for concrete instances: a directory and a regular file.\<close>

definition example_dir :: "string \<Rightarrow> FilesystemElement" where
  "example_dir p =
     \<lparr>ty = ft_directory, per = 0x1ED, us = ''root'', gs = ''root'', mt = 1600000000, sz = 0,
      fileHash = [], rp = p, symlink = [], hardLinkCnt = 2\<rparr>"

definition example_file :: "string \<Rightarrow> FilesystemElement" where
  "example_file p =
     \<lparr>ty = ft_regular, per = 0x1A4, us = ''root'', gs = ''root'', mt = 1600000000, sz = 5,
      fileHash = ''da39a3ee5e6b4b0d3255bfef95601890afd80709'', rp = p, symlink = [],
      hardLinkCnt = 1\<rparr>"

section \<open>The ordering is total and puts directories first\<close>

text \<open>
  Claim C4. \<^verbatim>\<open>operator<\<close> on records is irreflexive and transitive, and two records are
  unordered exactly when they agree on being a directory and have equal relative paths
  (equality of \<^verbatim>\<open>std::filesystem::path\<close>): a strict total order up to such records. Every
  directory is strictly less than every non-directory; within one category the order is
  the order of the relative paths, which for single file names is the lexicographic,
  case-sensitive order of their bytes. Sorting a list by this order permutes it into a
  sorted list in which all directories stand before all non-directories.
\<close>

theorem operator_less_total_directories_first:
  "\<not> operator_less a a \<and>
   (operator_less a b \<and> operator_less b c \<longrightarrow> operator_less a c) \<and>
   ((\<not> operator_less a b \<and> \<not> operator_less b a) =
      (isDirectory a = isDirectory b \<and> path_eq (rp a) (rp b))) \<and>
   (isDirectory a \<and> \<not> isDirectory b \<longrightarrow> operator_less a b \<and> \<not> operator_less b a) \<and>
   (isDirectory a = isDirectory b \<longrightarrow> operator_less a b = path_less (rp a) (rp b)) \<and>
   (p \<noteq> [] \<and> q \<noteq> [] \<and> CHR ''/'' \<notin> set p \<and> CHR ''/'' \<notin> set q \<longrightarrow> path_less p q = (p < q)) \<and>
   mset (list_sort id xs) = mset xs \<and>
   sorted_wrt (\<lambda>x y. \<not> operator_less y x) (list_sort id xs) \<and>
   list_sort id xs = filter isDirectory (list_sort id xs) @
                     filter (\<lambda>e. \<not> isDirectory e) (list_sort id xs)"
proof -
  have trans: "operator_less a b \<and> operator_less b c \<longrightarrow> operator_less a c"
    using operator_less_trans by blast
  have dirs: "isDirectory a \<and> \<not> isDirectory b \<longrightarrow> operator_less a b \<and> \<not> operator_less b a"
    using operator_less_dir_first by blast
  have same: "isDirectory a = isDirectory b \<longrightarrow> operator_less a b = path_less (rp a) (rp b)"
    by (simp add: operator_less_def)
  have names: "p \<noteq> [] \<and> q \<noteq> [] \<and> CHR ''/'' \<notin> set p \<and> CHR ''/'' \<notin> set q \<longrightarrow> path_less p q = (p < q)"
    using path_less_single by blast
  have srt: "sorted_wrt (\<lambda>x y. \<not> operator_less y x) (list_sort id xs)"
    using sorted_list_sort [of id xs] by simp
  have split: "list_sort id xs = filter isDirectory (list_sort id xs) @
                     filter (\<lambda>e. \<not> isDirectory e) (list_sort id xs)"
    using sorted_directories_first [of id "list_sort id xs"] srt by simp
  show ?thesis
    using operator_less_irrefl [of a] trans operator_less_equiv [of a b] dirs same names
      mset_list_sort [of id xs] srt split
    by blast
qed

theorem operator_less_total_directories_first_witness:
  "operator_less (example_dir ''zeta'') (example_file ''Alpha'') \<and>
   \<not> operator_less (example_file ''Alpha'') (example_dir ''zeta'') \<and>
   operator_less (example_file ''Beta'') (example_file ''alpha'') \<and>
   list_sort id [example_file ''alpha'', example_file ''Beta'', example_dir ''zeta'',
                 example_dir ''beta''] =
     [example_dir ''beta'', example_dir ''zeta'', example_file ''Beta'', example_file ''alpha'']"
proof -
  have d: "isDirectory (example_dir ''zeta'')" "\<not> isDirectory (example_file ''Alpha'')"
    "isDirectory (example_file ''Beta'') = isDirectory (example_file ''alpha'')"
    by (simp_all add: isDirectory_def example_dir_def example_file_def)
  have n: "path_less ''Beta'' ''alpha''"
    using operator_less_total_directories_first [of _ _ _ "''Beta''" "''alpha''"] by simp
  have s: "list_sort id [example_file ''alpha'', example_file ''Beta'', example_dir ''zeta'',
                 example_dir ''beta''] =
     [example_dir ''beta'', example_dir ''zeta'', example_file ''Beta'', example_file ''alpha'']"
    by (simp add: list_sort_def operator_less_def isDirectory_def example_dir_def
        example_file_def path_less_def path_filenames_def has_root_directory_def)
  show ?thesis
    using operator_less_total_directories_first
      [of "example_dir ''zeta''" "example_file ''Alpha''" "example_file ''Alpha''" "''Beta''" "''alpha''"]
      operator_less_total_directories_first
      [of "example_file ''Beta''" "example_file ''alpha''" "example_file ''alpha''" "''Beta''" "''alpha''"]
      d n s
    by (simp add: example_file_def)
qed


section \<open>The effect of a listing\<close>

lemma render_append:
  "render pb (bs @ cs) = render pb bs @ render (final_break pb bs) cs"
  by (induction bs arbitrary: pb) (auto simp: final_break_def)

lemma final_break_append:
  "final_break pb (bs @ cs) = final_break (final_break pb bs) cs"
  by (auto simp: final_break_def)

lemma lister_effect_refl: "lister_effect st [] st"
  by (simp add: lister_effect_def final_break_def)

lemma lister_effect_trans:
  "lister_effect st bs st1 \<Longrightarrow> lister_effect st1 cs st2 \<Longrightarrow> lister_effect st (bs @ cs) st2"
  by (auto simp: lister_effect_def render_append final_break_append)

lemma list_element_effect:
  assumes "list_element e st = Some st'"
  shows "os st' = os st @ entry_line e \<and> printBreak st' = printBreak st \<and>
         unsupported st' = (unsupported st \<or> entry_unsupported e) \<and> top st' = top st"
  using assms
  by (auto simp: list_element_def entry_line_def entry_unsupported_def Let_def
           split: option.splits if_splits)

lemma list_elements_effect:
  "list_elements es st = Some st' \<Longrightarrow>
   os st' = os st @ concat (map entry_line es) \<and> printBreak st' = printBreak st \<and>
   unsupported st' = (unsupported st \<or> list_ex entry_unsupported es) \<and> top st' = top st"
proof (induction es arbitrary: st)
  case Nil
  then show ?case by simp
next
  case (Cons e es)
  from Cons.prems obtain st1 where e: "list_element e st = Some st1"
    and r: "list_elements es st1 = Some st'"
    by (auto split: option.splits)
  show ?case
    using list_element_effect [OF e] Cons.IH [OF r] by auto
qed

lemma recursiveListFiles_effect:
  "recursiveListFiles entries st = Some st' \<Longrightarrow> lister_effect st (dir_blocks entries) st'"
  "list_directories ds st = Some st' \<Longrightarrow> lister_effect st (sub_blocks ds) st'"
proof (induction entries st and ds st arbitrary: st' and st'
       rule: recursiveListFiles_list_directories.induct)
  case (1 entries st)
  define st1 where "st1 = (if printBreak st then st\<lparr>os := os st @ [CHR 0x0A]\<rparr> else st)"
  define fe where "fe = list_sort FilesystemElement_disk entries"
  from "1.prems" obtain st2 where w: "list_elements (map FilesystemElement_disk fe) st1 = Some st2"
    and d: "list_directories fe (st2\<lparr>printBreak := (fe \<noteq> [])\<rparr>) = Some st'"
    by (auto simp: st1_def fe_def Let_def split: option.splits)
  have sub: "lister_effect (st2\<lparr>printBreak := (fe \<noteq> [])\<rparr>) (sub_blocks fe) st'"
    using "1.IH" [OF st1_def fe_def w d] .
  have first: "lister_effect st [map FilesystemElement_disk fe] (st2\<lparr>printBreak := (fe \<noteq> [])\<rparr>)"
    using list_elements_effect [OF w]
    by (auto simp: lister_effect_def final_break_def st1_def)
  have "dir_blocks entries = [map FilesystemElement_disk fe] @ sub_blocks fe"
    by (simp add: fe_def Let_def)
  then show ?case
    using lister_effect_trans [OF first sub] by simp
next
  case (2 st)
  then show ?case by (simp add: lister_effect_refl)
next
  case (3 d ds st)
  show ?case
  proof (cases "isDirectory (FilesystemElement_disk d)")
    case True
    with "3.prems" obtain st1 where a: "recursiveListFiles (d_entries d) st = Some st1"
      and b: "list_directories ds st1 = Some st'"
      by (auto split: option.splits)
    show ?thesis
      using lister_effect_trans [OF "3.IH"(1) [OF True a] "3.IH"(2) [OF True a b]] True
      by simp
  next
    case False
    with "3.prems" have b: "list_directories ds st = Some st'" by simp
    show ?thesis
      using "3.IH"(3) [OF False b] False by simp
  qed
qed


lemma list_elements_returns:
  "list_all (\<lambda>e. writeTo e \<noteq> None) es \<Longrightarrow> \<exists>st'. list_elements es st = Some st'"
proof (induction es arbitrary: st)
  case Nil
  then show ?case by simp
next
  case (Cons e es)
  then obtain l where "writeTo e = Some l" by auto
  then obtain st1 where "list_element e st = Some st1"
    by (simp add: list_element_def Let_def)
  with Cons show ?case by simp
qed

lemma recursiveListFiles_returns:
  "list_all (\<lambda>e. writeTo e \<noteq> None) (concat (dir_blocks entries)) \<Longrightarrow>
   \<exists>st'. recursiveListFiles entries st = Some st'"
  "list_all (\<lambda>e. writeTo e \<noteq> None) (concat (sub_blocks ds)) \<Longrightarrow>
   \<exists>st'. list_directories ds st = Some st'"
proof (induction entries st and ds st rule: recursiveListFiles_list_directories.induct)
  case (1 entries st)
  define st1 where "st1 = (if printBreak st then st\<lparr>os := os st @ [CHR 0x0A]\<rparr> else st)"
  define fe where "fe = list_sort FilesystemElement_disk entries"
  have blocks: "dir_blocks entries = map FilesystemElement_disk fe # sub_blocks fe"
    by (simp add: fe_def Let_def)
  from "1.prems" blocks
  have a: "list_all (\<lambda>e. writeTo e \<noteq> None) (map FilesystemElement_disk fe)"
    and b: "list_all (\<lambda>e. writeTo e \<noteq> None) (concat (sub_blocks fe))"
    by simp_all
  obtain st2 where w: "list_elements (map FilesystemElement_disk fe) st1 = Some st2"
    using list_elements_returns [OF a] by blast
  obtain st3 where "list_directories fe (st2\<lparr>printBreak := (fe \<noteq> [])\<rparr>) = Some st3"
    using "1.IH" [OF st1_def fe_def w b] by blast
  with w show ?case
    by (simp add: st1_def fe_def Let_def)
next
  case (2 st)
  then show ?case by simp
next
  case (3 d ds st)
  show ?case
  proof (cases "isDirectory (FilesystemElement_disk d)")
    case True
    with "3.prems"
    have a: "list_all (\<lambda>e. writeTo e \<noteq> None) (concat (dir_blocks (d_entries d)))"
      and b: "list_all (\<lambda>e. writeTo e \<noteq> None) (concat (sub_blocks ds))"
      by simp_all
    obtain st1 where r: "recursiveListFiles (d_entries d) st = Some st1"
      using "3.IH"(1) [OF True a] by blast
    obtain st2 where "list_directories ds st1 = Some st2"
      using "3.IH"(2) [OF True r b] by blast
    with True r show ?thesis by simp
  next
    case False
    with "3.prems" have "list_all (\<lambda>e. writeTo e \<noteq> None) (concat (sub_blocks ds))"
      by simp
    from "3.IH"(3) [OF False this] False show ?thesis by simp
  qed
qed

lemma visited_unfold:
  "visited d = FilesystemElement_disk d #
     (if isDirectory (FilesystemElement_disk d) then concat (map visited (d_entries d)) else [])"
  by (cases d) simp

lemma set_dir_blocks:
  "set (concat (dir_blocks entries)) = set (concat (map visited entries))"
  "set (concat (sub_blocks ds)) =
   set (concat (map (\<lambda>d. if isDirectory (FilesystemElement_disk d)
                          then concat (map visited (d_entries d)) else []) ds))"
proof (induction entries and ds rule: dir_blocks_sub_blocks.induct)
  case (1 entries)
  define fe where "fe = list_sort FilesystemElement_disk entries"
  have "set (concat (dir_blocks entries)) =
        FilesystemElement_disk ` set fe \<union> set (concat (sub_blocks fe))"
    by (simp add: fe_def Let_def)
  also have "\<dots> = (\<Union>d\<in>set fe. set (visited d))"
  proof -
    have v: "set (visited d) = insert (FilesystemElement_disk d)
            (set (if isDirectory (FilesystemElement_disk d)
                  then concat (map visited (d_entries d)) else []))" for d
      by (subst visited_unfold) simp
    have "(\<Union>d\<in>set fe. set (visited d)) =
          (\<Union>d\<in>set fe. insert (FilesystemElement_disk d)
            (set (if isDirectory (FilesystemElement_disk d)
                  then concat (map visited (d_entries d)) else [])))"
      by (simp only: v)
    also have "\<dots> = FilesystemElement_disk ` set fe \<union>
        set (concat (map (\<lambda>d. if isDirectory (FilesystemElement_disk d)
                          then concat (map visited (d_entries d)) else []) fe))"
      by auto
    finally show ?thesis
      unfolding "1.IH" [OF fe_def] by simp
  qed
  also have "\<dots> = set (concat (map visited entries))"
    by (simp add: fe_def set_list_sort)
  finally show ?case .
next
  case 2
  then show ?case by simp
next
  case (3 d ds)
  then show ?case by auto
qed

lemma sub_blocks_concat:
  "sub_blocks ds =
   concat (map (\<lambda>d. dir_blocks (d_entries d))
             (filter (\<lambda>d. isDirectory (FilesystemElement_disk d)) ds))"
  by (induction ds) simp_all


lemma writeTo_None_iff: "(writeTo e = None) = (gmtime_r (mt e) = None)"
  by (simp add: writeTo_def split: option.splits)

lemma gmtime_r_example:
  "gmtime_r 1600000000 =
     Some \<lparr>tm_sec = 40, tm_min = 26, tm_hour = 12, tm_mday = 13, tm_mon = 8, tm_year = 120\<rparr>"
  by code_simp

lemmas example_simps =
  example_tree_def example_entry_a_def example_entry_b_def example_entry_f_def
  example_tree_unsupported_def example_status_def FilesystemElement_disk_def isDirectory_def

section \<open>A top path that is not a directory\<close>



section \<open>The flag for unsupported content\<close>

text \<open>
  Claim C7. Let the top path be a directory, and let the assertion of \<^verbatim>\<open>writeTo\<close> hold
  for every record of the traversal. Then \<^verbatim>\<open>listFiles\<close> returns, whatever the entries
  are and whatever the flag was before (it is reset at the start). After the run the flag
  is set if and only if some visited entry has the type unknown, or is not a directory
  and has a hard-link count other than 1. Neither condition ends the traversal: the
  records written are those of all visited entries, and the output is the text of all
  blocks.
\<close>

theorem listFiles_unsupported_flag:
  assumes "directory_at fs (absolute fs top_arg) = Some entries"
    and "list_all (\<lambda>e. gmtime_r (mt e) \<noteq> None) (concat (map visited entries))"
  shows "\<exists>st'. listFiles fs top_arg st = Returned st' \<and>
           unsupported st' =
             (\<exists>e\<in>set (concat (map visited entries)).
                ty e = ft_unknown \<or> (ty e \<noteq> ft_directory \<and> hardLinkCnt e \<noteq> 1)) \<and>
           set (concat (dir_blocks entries)) = set (concat (map visited entries)) \<and>
           os st' = os st @ render False (dir_blocks entries)"
proof -
  let ?st0 = "st\<lparr>top := absolute fs top_arg, printBreak := False, unsupported := False\<rparr>"
  have "list_all (\<lambda>e. writeTo e \<noteq> None) (concat (dir_blocks entries))"
    using assms(2) set_dir_blocks(1) [of entries]
    unfolding list_all_iff writeTo_None_iff by blast
  then obtain st' where r: "recursiveListFiles entries ?st0 = Some st'"
    using recursiveListFiles_returns(1) by blast
  have eff: "lister_effect ?st0 (dir_blocks entries) st'"
    using recursiveListFiles_effect(1) [OF r] .
  have "listFiles fs top_arg st = Returned st'"
    using assms(1) r by (simp add: listFiles_def)
  moreover have "unsupported st' =
             (\<exists>e\<in>set (concat (map visited entries)).
                ty e = ft_unknown \<or> (ty e \<noteq> ft_directory \<and> hardLinkCnt e \<noteq> 1))"
    using eff set_dir_blocks(1) [of entries]
    by (simp add: lister_effect_def list_ex_iff entry_unsupported_def del: set_concat)
  moreover have "os st' = os st @ render False (dir_blocks entries)"
    using eff by (simp add: lister_effect_def)
  ultimately show ?thesis
    using set_dir_blocks(1) [of entries] by blast
qed

theorem listFiles_unsupported_flag_witness:
  "directory_at example_disk (absolute example_disk ''odd'') = Some example_tree_unsupported \<and>
   list_all (\<lambda>e. gmtime_r (mt e) \<noteq> None) (concat (map visited example_tree_unsupported)) \<and>
   (\<exists>st'. listFiles example_disk ''odd'' example_lister = Returned st' \<and> unsupported st') \<and>
   directory_at example_disk (absolute example_disk ''top'') = Some example_tree \<and>
   list_all (\<lambda>e. gmtime_r (mt e) \<noteq> None) (concat (map visited example_tree)) \<and>
   (\<exists>st'. listFiles example_disk ''top'' example_lister = Returned st' \<and> \<not> unsupported st')"
proof -
  have h1: "directory_at example_disk (absolute example_disk ''odd'') = Some example_tree_unsupported"
    by (simp add: example_disk_def)
  have h2: "list_all (\<lambda>e. gmtime_r (mt e) \<noteq> None) (concat (map visited example_tree_unsupported))"
    by (simp add: example_simps gmtime_r_example)
  have u: "\<exists>e\<in>set (concat (map visited example_tree_unsupported)).
                ty e = ft_unknown \<or> (ty e \<noteq> ft_directory \<and> hardLinkCnt e \<noteq> 1)"
    by (simp add: example_simps)
  have k1: "directory_at example_disk (absolute example_disk ''top'') = Some example_tree"
    by (simp add: example_disk_def)
  have k2: "list_all (\<lambda>e. gmtime_r (mt e) \<noteq> None) (concat (map visited example_tree))"
    by (simp add: example_simps gmtime_r_example)
  have n: "\<not> (\<exists>e\<in>set (concat (map visited example_tree)).
                ty e = ft_unknown \<or> (ty e \<noteq> ft_directory \<and> hardLinkCnt e \<noteq> 1))"
    by (simp add: example_simps)
  show ?thesis
    using h1 h2 k1 k2 listFiles_unsupported_flag [OF h1 h2, of example_lister]
      listFiles_unsupported_flag [OF k1 k2, of example_lister] u n
    by blast
qed


section \<open>The text of a listing\<close>

lemma written_listFiles:
  assumes "directory_at fs (absolute fs top_arg) = Some entries"
    and "list_all (\<lambda>e. gmtime_r (mt e) \<noteq> None) (concat (map visited entries))"
  shows "written (listFiles fs top_arg st) = Some (os st @ render False (dir_blocks entries))"
proof -
  let ?st0 = "st\<lparr>top := absolute fs top_arg, printBreak := False, unsupported := False\<rparr>"
  have "list_all (\<lambda>e. writeTo e \<noteq> None) (concat (dir_blocks entries))"
    using assms(2) set_dir_blocks(1) [of entries]
    unfolding list_all_iff writeTo_None_iff by blast
  then obtain st' where r: "recursiveListFiles entries ?st0 = Some st'"
    using recursiveListFiles_returns(1) by blast
  have "lister_effect ?st0 (dir_blocks entries) st'"
    using recursiveListFiles_effect(1) [OF r] .
  then have "os st' = os st @ render False (dir_blocks entries)"
    by (simp add: lister_effect_def)
  then show ?thesis
    using assms(1) r by (simp add: listFiles_def written_def)
qed

lemma render_separated:
  "[] \<notin> set (butlast bs) \<Longrightarrow>
   render True bs = concat (map (\<lambda>c. CHR 0x0A # concat (map entry_line c)) bs)"
  by (induction bs) (auto split: if_splits)

lemma render_separated_blocks:
  "[] \<notin> set (butlast bs) \<Longrightarrow> render False bs = separated_blocks bs"
  by (cases bs) (auto simp: separated_blocks_def render_separated split: if_splits)

lemma dir_blocks_example_tree:
  "dir_blocks example_tree =
     [[FilesystemElement_disk example_entry_a, FilesystemElement_disk example_entry_b], [],
      [FilesystemElement_disk example_entry_f]]"
  by (simp add: example_simps list_sort_def operator_less_def path_less_def
      path_filenames_def has_root_directory_def)

lemma entry_line_example_a:
  "entry_line (FilesystemElement_disk example_entry_a) =
     ''drwxr-xr-x root staff 2020-09-13 12:26:40 +0000 '' @ [CHR 0x22] @ ''a''
     @ [CHR 0x22, CHR 0x0A]"
  by code_simp

lemma entry_line_example_b:
  "entry_line (FilesystemElement_disk example_entry_b) =
     ''drwxr-xr-x root staff 2020-09-13 12:26:40 +0000 '' @ [CHR 0x22] @ ''b''
     @ [CHR 0x22, CHR 0x0A]"
  by code_simp

lemma entry_line_example_f:
  "entry_line (FilesystemElement_disk example_entry_f) =
     ''-rwxr-xr-x root staff 2020-09-13 12:26:40 +0000 5 da39a3ee5e6b4b0d3255bfef95601890afd80709 ''
     @ [CHR 0x22] @ ''b/f'' @ [CHR 0x22, CHR 0x0A]"
  by code_simp

text \<open>
  Claim C6, as the specification states it, fails where a directory is empty: the top
  directory of \<open>example_tree\<close> holds the empty directory \<^verbatim>\<open>a\<close> and the directory \<^verbatim>\<open>b\<close> with
  one file. Three directories are visited, but the listing has a single blank line; it is
  neither the three blocks with a separator between them, nor the three blocks each
  followed by a separator.
\<close>

theorem listFiles_blocks_counterexample:
  "written (listFiles example_disk ''top'' example_lister) \<noteq>
     Some (separated_blocks (dir_blocks example_tree)) \<and>
   written (listFiles example_disk ''top'' example_lister) \<noteq>
     Some (followed_blocks (dir_blocks example_tree))"
proof -
  have k1: "directory_at example_disk (absolute example_disk ''top'') = Some example_tree"
    by (simp add: example_disk_def)
  have k2: "list_all (\<lambda>e. gmtime_r (mt e) \<noteq> None) (concat (map visited example_tree))"
    by (simp add: example_simps gmtime_r_example)
  show ?thesis
    unfolding written_listFiles [OF k1 k2] dir_blocks_example_tree
    by (simp add: example_lister_def separated_blocks_def followed_blocks_def)
qed

text \<open>
  Claim C6, amended. A listing that returns has written the blocks of the directories in
  depth-first pre-order: first the block of the directory itself, one codec line for each
  of its entries in sorted order, then for each of its subdirectories in sorted order the
  blocks of that subdirectory. A blank separator line is written in front of a block
  exactly when the directory visited before it has an entry (\<open>render\<close>): nothing precedes
  the first block, and an empty directory writes no line and is followed by no
  separator. When no directory except possibly the last one visited is empty, the text
  is the blocks with one blank line between each block and the next.
\<close>

theorem listFiles_writes_blocks:
  assumes "listFiles fs top_arg st = Returned st'"
    and "directory_at fs (absolute fs top_arg) = Some entries"
  shows "os st' = os st @ render False (dir_blocks entries) \<and>
         dir_blocks entries =
           map FilesystemElement_disk (list_sort FilesystemElement_disk entries) #
           concat (map (\<lambda>d. dir_blocks (d_entries d))
                     (filter (\<lambda>d. isDirectory (FilesystemElement_disk d))
                        (list_sort FilesystemElement_disk entries))) \<and>
         ([] \<notin> set (butlast (dir_blocks entries)) \<longrightarrow>
            render False (dir_blocks entries) = separated_blocks (dir_blocks entries))"
proof -
  let ?st0 = "st\<lparr>top := absolute fs top_arg, printBreak := False, unsupported := False\<rparr>"
  from assms have r: "recursiveListFiles entries ?st0 = Some st'"
    by (auto simp: listFiles_def split: option.splits)
  have "lister_effect ?st0 (dir_blocks entries) st'"
    using recursiveListFiles_effect(1) [OF r] .
  then have "os st' = os st @ render False (dir_blocks entries)"
    by (simp add: lister_effect_def)
  moreover have "dir_blocks entries =
           map FilesystemElement_disk (list_sort FilesystemElement_disk entries) #
           concat (map (\<lambda>d. dir_blocks (d_entries d))
                     (filter (\<lambda>d. isDirectory (FilesystemElement_disk d))
                        (list_sort FilesystemElement_disk entries)))"
    by (subst dir_blocks.simps) (simp add: Let_def sub_blocks_concat del: dir_blocks.simps)
  ultimately show ?thesis
    using render_separated_blocks by blast
qed

theorem listFiles_writes_blocks_witness:
  "directory_at example_disk (absolute example_disk ''top'') = Some example_tree \<and>
   (\<exists>st'. listFiles example_disk ''top'' example_lister = Returned st' \<and>
      os st' =
        ''drwxr-xr-x root staff 2020-09-13 12:26:40 +0000 '' @ [CHR 0x22] @ ''a''
          @ [CHR 0x22, CHR 0x0A]
        @ ''drwxr-xr-x root staff 2020-09-13 12:26:40 +0000 '' @ [CHR 0x22] @ ''b''
          @ [CHR 0x22, CHR 0x0A]
        @ [CHR 0x0A]
        @ ''-rwxr-xr-x root staff 2020-09-13 12:26:40 +0000 5 da39a3ee5e6b4b0d3255bfef95601890afd80709 ''
          @ [CHR 0x22] @ ''b/f'' @ [CHR 0x22, CHR 0x0A])"
proof -
  have k1: "directory_at example_disk (absolute example_disk ''top'') = Some example_tree"
    by (simp add: example_disk_def)
  have k2: "list_all (\<lambda>e. gmtime_r (mt e) \<noteq> None) (concat (map visited example_tree))"
    by (simp add: example_simps gmtime_r_example)
  obtain st' where r: "listFiles example_disk ''top'' example_lister = Returned st'"
    using written_listFiles [OF k1 k2, of example_lister]
    by (auto simp: written_def split: outcome.splits)
  have "os st' = os example_lister @ render False (dir_blocks example_tree)"
    using listFiles_writes_blocks [OF r k1] by blast
  then have "os st' =
        ''drwxr-xr-x root staff 2020-09-13 12:26:40 +0000 '' @ [CHR 0x22] @ ''a''
          @ [CHR 0x22, CHR 0x0A]
        @ ''drwxr-xr-x root staff 2020-09-13 12:26:40 +0000 '' @ [CHR 0x22] @ ''b''
          @ [CHR 0x22, CHR 0x0A]
        @ [CHR 0x0A]
        @ ''-rwxr-xr-x root staff 2020-09-13 12:26:40 +0000 5 da39a3ee5e6b4b0d3255bfef95601890afd80709 ''
          @ [CHR 0x22] @ ''b/f'' @ [CHR 0x22, CHR 0x0A]"
    unfolding dir_blocks_example_tree
    by (simp add: example_lister_def entry_line_example_a entry_line_example_b
        entry_line_example_f)
  with k1 r show ?thesis by blast
qed

end
